theory Spec2Isabelle
  imports Main
begin

section \<open>The preprocessor fragment used by \<open>app_config.h\<close>\<close>

text \<open>
  \<open>app_config.h\<close> consists of object-like \<open>#define\<close> directives and \<open>#ifndef\<close> groups
  only.  Its meaning is the change it makes to the table of macros that are defined at the
  point where the header is included.  That table is the input of the header (macros given
  on the compiler's command line or defined earlier in the translation unit) and, after the
  header, the configuration every later \<open>#ifdef\<close>, \<open>#if\<close> and expression sees.
\<close>

type_synonym name = string

text \<open>
  The replacement list of an object-like macro: empty (\<open>#define X\<close>), an integer constant
  (\<open>#define X 0\<close>), or any other token text.
\<close>

datatype replacement = Blank | Num int | Tokens string

type_synonym env = "name \<rightharpoonup> replacement"

datatype directive =
    Define name replacement
  | Ifndef name "directive list"

text \<open>
  ISO C 6.10.3 allows a defined macro to be defined again only with an identical replacement
  list and demands a diagnostic otherwise.  A translator either stops there (\<open>Pedantic\<close>)
  or warns and lets the new definition replace the old one (\<open>Permissive\<close>).
\<close>

datatype conformance = Permissive | Pedantic

datatype error = Redefined name

definition define_macro :: "conformance \<Rightarrow> name \<Rightarrow> replacement \<Rightarrow> env \<Rightarrow> error + env" where
  "define_macro c n r e =
     (case e n of
        None \<Rightarrow> Inr (e(n \<mapsto> r))
      | Some r' \<Rightarrow> if r' = r \<or> c = Permissive then Inr (e(n \<mapsto> r)) else Inl (Redefined n))"

text \<open>
  A directive is executed on the current table; the group of an \<open>#ifndef\<close> whose macro is
  defined is skipped whole.
\<close>

fun exec :: "conformance \<Rightarrow> directive \<Rightarrow> env \<Rightarrow> error + env"
  and run :: "conformance \<Rightarrow> directive list \<Rightarrow> env \<Rightarrow> error + env" where
  "exec c (Define n r) e = define_macro c n r e"
| "exec c (Ifndef n ds) e = (if e n = None then run c ds e else Inr e)"
| "run c [] e = Inr e"
| "run c (d # ds) e = (case exec c d e of Inl err \<Rightarrow> Inl err | Inr e' \<Rightarrow> run c ds e')"

text \<open>The macro names a directive list tests or defines.\<close>

fun names_of :: "directive \<Rightarrow> name list"
  and names :: "directive list \<Rightarrow> name list" where
  "names_of (Define n r) = [n]"
| "names_of (Ifndef n ds) = n # names ds"
| "names [] = []"
| "names (d # ds) = names_of d @ names ds"

text \<open>The macro names a directive list can define (as opposed to merely test).\<close>

fun definable_of :: "directive \<Rightarrow> name list"
  and definable :: "directive list \<Rightarrow> name list" where
  "definable_of (Define n r) = [n]"
| "definable_of (Ifndef n ds) = definable ds"
| "definable [] = []"
| "definable (d # ds) = definable_of d @ definable ds"

section \<open>The header\<close>

text \<open>
  The directives of \<open>app_config.h\<close> in source order.  Lines that are commented out in the
  source (\<open>ALTERA_PLATFORM\<close>, \<open>LINUX_PLATFORM\<close>, \<open>FMCOMMS5\<close>, \<open>ADI_RF_SOM\<close>,
  \<open>ADI_RF_SOM_CMOS\<close>, \<open>DAC_DMA_EXAMPLE\<close>, \<open>ADC_DMA_IRQ_EXAMPLE\<close>, \<open>AXI_ADC_NOT_PRESENT\<close>,
  \<open>TDD_SWITCH_STATE_EXAMPLE\<close>, \<open>IIO_SUPPORT\<close>, \<open>HAVE_DEBUG_MESSAGES\<close>) are comments and
  contribute no directive.
\<close>

definition app_config_h :: "directive list" where
  "app_config_h =
    [Ifndef ''CONFIG_H_''
      [Define ''CONFIG_H_'' Blank,
       Define ''HAVE_SPLIT_GAIN_TABLE'' (Num 0),
       Define ''HAVE_TDD_SYNTH_TABLE'' (Num 0),
       Define ''AD9361_DEVICE'' (Num 1),
       Define ''AD9364_DEVICE'' (Num 0),
       Define ''AD9363A_DEVICE'' (Num 0),
       Ifndef ''WINDOWS_PLATFORM''
         [Define ''XILINX_PLATFORM'' Blank],
       Define ''ADC_DMA_EXAMPLE'' Blank,
       Ifndef ''IIO_SUPPORT''
         [Define ''HAVE_VERBOSE_MESSAGES'' Blank]]]"

text \<open>Including the header in a translation unit whose macro table is \<open>e\<close>.\<close>

definition app_config :: "conformance \<Rightarrow> env \<Rightarrow> error + env" where
  "app_config c e = run c app_config_h e"

section \<open>Reading the configuration\<close>

text \<open>
  Code after the header reads a flag macro with \<open>#ifdef\<close> and a valued macro with \<open>#if\<close>
  or in an expression, where it counts as true when it expands to a nonzero constant.
\<close>

definition is_defined :: "env \<Rightarrow> name \<Rightarrow> bool" where
  "is_defined e n = (e n \<noteq> None)"

definition is_nonzero :: "env \<Rightarrow> name \<Rightarrow> bool" where
  "is_nonzero e n = (case e n of Some (Num v) \<Rightarrow> v \<noteq> 0 | _ \<Rightarrow> False)"

definition count_true :: "(name \<Rightarrow> bool) \<Rightarrow> name list \<Rightarrow> nat" where
  "count_true p ns = length (filter p ns)"

definition device_variants :: "name list" where
  "device_variants = [''AD9361_DEVICE'', ''AD9364_DEVICE'', ''AD9363A_DEVICE'']"

definition platforms :: "name list" where
  "platforms = [''WINDOWS_PLATFORM'', ''XILINX_PLATFORM'', ''ALTERA_PLATFORM'', ''LINUX_PLATFORM'']"

definition adc_transfer_modes :: "name list" where
  "adc_transfer_modes = [''ADC_DMA_EXAMPLE'', ''ADC_DMA_IRQ_EXAMPLE'', ''AXI_ADC_NOT_PRESENT'']"

text \<open>The header has not been included yet: its guard macro is still undefined.\<close>

definition first_inclusion :: "env \<Rightarrow> bool" where
  "first_inclusion e = (e ''CONFIG_H_'' = None)"

text \<open>The table of a translation unit in which nothing has been defined yet.\<close>

definition no_macros :: env where
  "no_macros = Map.empty"

text \<open>
  The selections the shipped header makes (AD9361, Xilinx, verbose messages, ADC DMA in
  polling mode; no IIO support, no debug messages), written as macros that are already
  defined when the header is read.
\<close>

definition example_options :: env where
  "example_options =
     no_macros(''AD9361_DEVICE'' \<mapsto> Num 1, ''XILINX_PLATFORM'' \<mapsto> Blank,
       ''HAVE_VERBOSE_MESSAGES'' \<mapsto> Blank, ''ADC_DMA_EXAMPLE'' \<mapsto> Blank)"

text \<open>
  The option names downstream code of the driver consults; the header mentions some of them
  only in comments.
\<close>

definition recognized_options :: "name list" where
  "recognized_options =
    [''AD9361_DEVICE'', ''AD9364_DEVICE'', ''AD9363A_DEVICE'',
     ''WINDOWS_PLATFORM'', ''XILINX_PLATFORM'', ''ALTERA_PLATFORM'', ''LINUX_PLATFORM'',
     ''HAVE_SPLIT_GAIN_TABLE'', ''HAVE_TDD_SYNTH_TABLE'',
     ''ADC_DMA_EXAMPLE'', ''DAC_DMA_EXAMPLE'', ''ADC_DMA_IRQ_EXAMPLE'', ''AXI_ADC_NOT_PRESENT'',
     ''TDD_SWITCH_STATE_EXAMPLE'', ''IIO_SUPPORT'',
     ''HAVE_VERBOSE_MESSAGES'', ''HAVE_DEBUG_MESSAGES'']"



text \<open>Feature toggles for which the header contains no directive at all.\<close>

definition untouched_toggles :: "name list" where
  "untouched_toggles =
    [''DAC_DMA_EXAMPLE'', ''ADC_DMA_IRQ_EXAMPLE'', ''AXI_ADC_NOT_PRESENT'',
     ''TDD_SWITCH_STATE_EXAMPLE'', ''IIO_SUPPORT'', ''HAVE_DEBUG_MESSAGES'']"

section \<open>Properties of the interpreter\<close>

lemmas header_eval =
  app_config_def app_config_h_def define_macro_def no_macros_def first_inclusion_def
  is_defined_def is_nonzero_def count_true_def platforms_def device_variants_def
  adc_transfer_modes_def

lemma define_macro_permissive [simp]:
  "define_macro Permissive n r e = Inr (e(n \<mapsto> r))"
  by (simp add: define_macro_def split: option.splits)

lemma define_macro_Inr:
  "define_macro c n r e = Inr e' \<Longrightarrow> e' = e(n \<mapsto> r)"
  by (auto simp: define_macro_def split: option.splits if_splits)

text \<open>A pass that succeeds produces the table the permissive pass produces.\<close>

lemma exec_run_permissive:
  "exec c d e = Inr e' \<Longrightarrow> exec Permissive d e = Inr e'"
  "run c ds e = Inr e' \<Longrightarrow> run Permissive ds e = Inr e'"
proof (induction c d e and c ds e arbitrary: e' and e' rule: exec_run.induct)
  case (1 c n r e)
  then show ?case by (auto dest: define_macro_Inr)
next
  case (2 c n ds e)
  then show ?case by (cases "e n") auto
next
  case (3 c e)
  then show ?case by simp
next
  case (4 c d ds e)
  then show ?case by (auto split: sum.splits)
qed

text \<open>A macro that a directive list never mentions is carried through it unchanged.\<close>

lemma define_macro_frame:
  "n \<noteq> m \<Longrightarrow> define_macro c m r (e(n := v)) =
     (case define_macro c m r e of Inl err \<Rightarrow> Inl err | Inr e' \<Rightarrow> Inr (e'(n := v)))"
  apply (cases "e m")
  apply (simp_all add: define_macro_def fun_upd_twist)
  done

lemma exec_run_frame:
  "n \<notin> set (names_of d) \<Longrightarrow>
     exec c d (e(n := v)) = (case exec c d e of Inl err \<Rightarrow> Inl err | Inr e' \<Rightarrow> Inr (e'(n := v)))"
  "n \<notin> set (names ds) \<Longrightarrow>
     run c ds (e(n := v)) = (case run c ds e of Inl err \<Rightarrow> Inl err | Inr e' \<Rightarrow> Inr (e'(n := v)))"
proof (induction c d e and c ds e rule: exec_run.induct)
  case (1 c m r e)
  then have neq: "n \<noteq> m" by simp
  show ?case unfolding exec.simps by (rule define_macro_frame [OF neq])
next
  case (2 c m ds e)
  then have "n \<noteq> m" and "n \<notin> set (names ds)" by simp_all
  from \<open>n \<noteq> m\<close> have look: "(e(n := v)) m = e m" by simp
  show ?case
  proof (cases "e m")
    case None
    with 2 \<open>n \<notin> set (names ds)\<close> look show ?thesis
      by (simp del: fun_upd_apply)
  next
    case (Some r)
    with look show ?thesis by (simp del: fun_upd_apply)
  qed
next
  case (3 c e)
  show ?case by (simp only: run.simps sum.case)
next
  case (4 c d ds e)
  then have nd: "n \<notin> set (names_of d)" and nds: "n \<notin> set (names ds)" by simp_all
  show ?case
  proof (cases "exec c d e")
    case (Inl err)
    with 4(1) [OF nd] show ?thesis by (simp only: run.simps sum.case)
  next
    case (Inr e')
    with 4(1) [OF nd] 4(2) [OF Inr nds] show ?thesis by (simp only: run.simps sum.case)
  qed
qed

text \<open>A successful pass changes only macros that some directive can define.\<close>

lemma exec_run_keeps_undefined:
  "exec c d e = Inr e' \<Longrightarrow> n \<notin> set (definable_of d) \<Longrightarrow> e' n = e n"
  "run c ds e = Inr e' \<Longrightarrow> n \<notin> set (definable ds) \<Longrightarrow> e' n = e n"
proof (induction c d e and c ds e arbitrary: e' and e' rule: exec_run.induct)
  case (1 c m r e)
  then show ?case by (auto dest: define_macro_Inr)
next
  case (2 c m ds e)
  then show ?case by (cases "e m") auto
next
  case (3 c e)
  then show ?case by simp
next
  case (4 c d ds e)
  from 4(3) obtain e1 where e1: "exec c d e = Inr e1" and rest: "run c ds e1 = Inr e'"
    by (cases "exec c d e") auto
  from 4(4) have nd: "n \<notin> set (definable_of d)" and nds: "n \<notin> set (definable ds)"
    by simp_all
  from 4(1) [OF e1 nd] 4(2) [OF e1 rest nds] show ?case by simp
qed



section \<open>Properties of the header\<close>

text \<open>Once the guard is defined the header is skipped.\<close>

lemma app_config_again:
  "\<not> first_inclusion e \<Longrightarrow> app_config c e = Inr e"
  by (auto simp: app_config_def app_config_h_def first_inclusion_def)

text \<open>The table a successful first inclusion leaves behind.\<close>

lemma app_config_first:
  assumes "first_inclusion e" and "app_config c e = Inr cfg"
  shows "cfg =
    ((e(''CONFIG_H_'' \<mapsto> Blank, ''HAVE_SPLIT_GAIN_TABLE'' \<mapsto> Num 0,
        ''HAVE_TDD_SYNTH_TABLE'' \<mapsto> Num 0, ''AD9361_DEVICE'' \<mapsto> Num 1,
        ''AD9364_DEVICE'' \<mapsto> Num 0, ''AD9363A_DEVICE'' \<mapsto> Num 0)
      ++ (if e ''WINDOWS_PLATFORM'' = None then [''XILINX_PLATFORM'' \<mapsto> Blank] else Map.empty))
      (''ADC_DMA_EXAMPLE'' \<mapsto> Blank))
      ++ (if e ''IIO_SUPPORT'' = None then [''HAVE_VERBOSE_MESSAGES'' \<mapsto> Blank] else Map.empty)"
proof -
  from assms(2) have "run Permissive app_config_h e = Inr cfg"
    unfolding app_config_def by (rule exec_run_permissive(2))
  with assms(1) show ?thesis
    by (cases "e ''WINDOWS_PLATFORM''"; cases "e ''IIO_SUPPORT''")
       (auto simp: app_config_h_def first_inclusion_def)
qed

lemma header_names_recognized:
  "set (names app_config_h) \<subseteq> insert ''CONFIG_H_'' (set recognized_options)"
  by (simp add: app_config_h_def recognized_options_def)

lemma app_config_keeps_unmentioned:
  assumes "app_config c e = Inr cfg" and "n \<notin> set (definable app_config_h)"
  shows "cfg n = e n"
  using assms unfolding app_config_def by (rule exec_run_keeps_undefined(2))

text \<open>The header contains no \<open>#undef\<close>: what was defined stays defined.\<close>

lemma app_config_keeps_defined:
  assumes "app_config c e = Inr cfg" and "e n \<noteq> None"
  shows "cfg n \<noteq> None"
proof (cases "first_inclusion e")
  case True
  from assms(2) app_config_first [OF True assms(1)] show ?thesis
    by (auto simp: map_add_def)
next
  case False
  with assms show ?thesis by (simp add: app_config_again)
qed

section \<open>Device variant and platform\<close>

text \<open>
  With \<open>ALTERA_PLATFORM\<close> defined before the header is read, the header still adds
  \<open>XILINX_PLATFORM\<close>: the pass succeeds and two platform macros are defined.  The header
  contains no check that would reject this.
\<close>

theorem C1_two_platforms:
  "\<not> isl (app_config Pedantic (no_macros(''ALTERA_PLATFORM'' \<mapsto> Blank)))
   \<and> is_defined (projr (app_config Pedantic (no_macros(''ALTERA_PLATFORM'' \<mapsto> Blank))))
        ''XILINX_PLATFORM''
   \<and> is_defined (projr (app_config Pedantic (no_macros(''ALTERA_PLATFORM'' \<mapsto> Blank))))
        ''ALTERA_PLATFORM''
   \<and> count_true (is_defined (projr (app_config Pedantic (no_macros(''ALTERA_PLATFORM'' \<mapsto> Blank)))))
        platforms = 2"
  by (simp add: header_eval)

text \<open>
  Claim C1, as the header has it.  Whenever the header is read for the first time and the
  pass succeeds, exactly one device variant is true, and it is \<open>AD9361_DEVICE\<close>.  At
  least one platform macro is defined, and exactly one precisely when the input defines
  neither \<open>ALTERA_PLATFORM\<close> nor \<open>LINUX_PLATFORM\<close> and does not define
  \<open>WINDOWS_PLATFORM\<close> and \<open>XILINX_PLATFORM\<close> together; for every other input a
  successful pass leaves several platforms defined.
\<close>

theorem C1_one_variant_platform_condition:
  assumes "first_inclusion e" and "app_config c e = Inr cfg"
  shows "is_nonzero cfg ''AD9361_DEVICE''
    \<and> count_true (is_nonzero cfg) device_variants = 1
    \<and> 1 \<le> count_true (is_defined cfg) platforms
    \<and> (count_true (is_defined cfg) platforms = 1 \<longleftrightarrow>
         \<not> is_defined e ''ALTERA_PLATFORM'' \<and> \<not> is_defined e ''LINUX_PLATFORM''
         \<and> \<not> (is_defined e ''WINDOWS_PLATFORM'' \<and> is_defined e ''XILINX_PLATFORM''))"
  using app_config_first [OF assms] assms(1)
  by (auto simp add: count_true_def is_defined_def is_nonzero_def platforms_def
      device_variants_def first_inclusion_def)

theorem C1_one_variant_platform_condition_witness:
  "first_inclusion (no_macros(''WINDOWS_PLATFORM'' \<mapsto> Blank))
   \<and> \<not> isl (app_config Pedantic (no_macros(''WINDOWS_PLATFORM'' \<mapsto> Blank)))
   \<and> is_nonzero (projr (app_config Pedantic (no_macros(''WINDOWS_PLATFORM'' \<mapsto> Blank))))
        ''AD9361_DEVICE''
   \<and> count_true (is_nonzero (projr (app_config Pedantic (no_macros(''WINDOWS_PLATFORM'' \<mapsto> Blank)))))
        device_variants = 1
   \<and> count_true (is_defined (projr (app_config Pedantic (no_macros(''WINDOWS_PLATFORM'' \<mapsto> Blank)))))
        platforms = 1"
  using C1_one_variant_platform_condition
    [of "no_macros(''WINDOWS_PLATFORM'' \<mapsto> Blank)" Pedantic
        "projr (app_config Pedantic (no_macros(''WINDOWS_PLATFORM'' \<mapsto> Blank)))"]
  by (simp add: header_eval)

section \<open>Message toggles and IIO support\<close>

text \<open>
  With \<open>IIO_SUPPORT\<close> defined, the \<open>#ifndef IIO_SUPPORT\<close> group is skipped, and nothing in
  the header removes a definition: message macros that were already defined stay defined.
\<close>

theorem C2_verbose_survives_iio:
  "\<not> isl (app_config Pedantic (no_macros(''IIO_SUPPORT'' \<mapsto> Blank,
       ''HAVE_VERBOSE_MESSAGES'' \<mapsto> Blank, ''HAVE_DEBUG_MESSAGES'' \<mapsto> Blank)))
   \<and> is_defined (projr (app_config Pedantic (no_macros(''IIO_SUPPORT'' \<mapsto> Blank,
       ''HAVE_VERBOSE_MESSAGES'' \<mapsto> Blank, ''HAVE_DEBUG_MESSAGES'' \<mapsto> Blank)))) ''HAVE_VERBOSE_MESSAGES''
   \<and> is_defined (projr (app_config Pedantic (no_macros(''IIO_SUPPORT'' \<mapsto> Blank,
       ''HAVE_VERBOSE_MESSAGES'' \<mapsto> Blank, ''HAVE_DEBUG_MESSAGES'' \<mapsto> Blank)))) ''HAVE_DEBUG_MESSAGES''"
  by (simp add: header_eval)

text \<open>
  Claim C2, as the header has it.  For every input in which \<open>IIO_SUPPORT\<close> is defined, the
  header defines neither \<open>HAVE_VERBOSE_MESSAGES\<close> nor \<open>HAVE_DEBUG_MESSAGES\<close>: each is
  enabled in the resulting configuration exactly when it was already defined before the
  header was read, so both are off when neither was.
\<close>

theorem C2_iio_adds_no_messages:
  assumes "is_defined e ''IIO_SUPPORT''" and "app_config c e = Inr cfg"
  shows "(is_defined cfg ''HAVE_VERBOSE_MESSAGES'' \<longleftrightarrow> is_defined e ''HAVE_VERBOSE_MESSAGES'')
       \<and> (is_defined cfg ''HAVE_DEBUG_MESSAGES'' \<longleftrightarrow> is_defined e ''HAVE_DEBUG_MESSAGES'')"
proof (cases "first_inclusion e")
  case True
  from assms(1) app_config_first [OF True assms(2)] show ?thesis
    by (auto simp: is_defined_def)
next
  case False
  with assms(2) show ?thesis by (simp add: app_config_again)
qed

theorem C2_iio_adds_no_messages_witness:
  "is_defined (no_macros(''IIO_SUPPORT'' \<mapsto> Blank)) ''IIO_SUPPORT''
   \<and> \<not> isl (app_config Pedantic (no_macros(''IIO_SUPPORT'' \<mapsto> Blank)))
   \<and> \<not> is_defined (no_macros(''IIO_SUPPORT'' \<mapsto> Blank)) ''HAVE_VERBOSE_MESSAGES''
   \<and> \<not> is_defined (projr (app_config Pedantic (no_macros(''IIO_SUPPORT'' \<mapsto> Blank)))) ''HAVE_VERBOSE_MESSAGES''
   \<and> \<not> is_defined (no_macros(''IIO_SUPPORT'' \<mapsto> Blank)) ''HAVE_DEBUG_MESSAGES''
   \<and> \<not> is_defined (projr (app_config Pedantic (no_macros(''IIO_SUPPORT'' \<mapsto> Blank)))) ''HAVE_DEBUG_MESSAGES''"
  using C2_iio_adds_no_messages [of "no_macros(''IIO_SUPPORT'' \<mapsto> Blank)" Pedantic
      "projr (app_config Pedantic (no_macros(''IIO_SUPPORT'' \<mapsto> Blank)))"]
  by (simp add: header_eval)

text \<open>
  The header has no directive for \<open>HAVE_DEBUG_MESSAGES\<close> and none that ties it to
  \<open>HAVE_VERBOSE_MESSAGES\<close>: debug messages can be on while verbose messages are off.
\<close>

theorem C3_debug_without_verbose:
  "\<not> isl (app_config Pedantic (no_macros(''IIO_SUPPORT'' \<mapsto> Blank, ''HAVE_DEBUG_MESSAGES'' \<mapsto> Blank)))
   \<and> \<not> is_defined (projr (app_config Pedantic
         (no_macros(''IIO_SUPPORT'' \<mapsto> Blank, ''HAVE_DEBUG_MESSAGES'' \<mapsto> Blank)))) ''HAVE_VERBOSE_MESSAGES''
   \<and> is_defined (projr (app_config Pedantic
         (no_macros(''IIO_SUPPORT'' \<mapsto> Blank, ''HAVE_DEBUG_MESSAGES'' \<mapsto> Blank)))) ''HAVE_DEBUG_MESSAGES''"
  by (simp add: header_eval)

text \<open>
  Claim C3, as the header has it.  \<open>HAVE_DEBUG_MESSAGES\<close> does not depend on
  \<open>HAVE_VERBOSE_MESSAGES\<close>: for every input in which verbose messages resolve to off,
  debug messages are on in the resulting configuration exactly when they were requested.
\<close>

theorem C3_debug_independent_of_verbose:
  assumes "app_config c e = Inr cfg" and "\<not> is_defined cfg ''HAVE_VERBOSE_MESSAGES''"
  shows "is_defined cfg ''HAVE_DEBUG_MESSAGES'' \<longleftrightarrow> is_defined e ''HAVE_DEBUG_MESSAGES''"
  using app_config_keeps_unmentioned [OF assms(1), of "''HAVE_DEBUG_MESSAGES''"]
  by (simp add: is_defined_def app_config_h_def)

theorem C3_debug_independent_of_verbose_witness:
  "\<not> isl (app_config Pedantic (no_macros(''IIO_SUPPORT'' \<mapsto> Num 1)))
   \<and> \<not> is_defined (projr (app_config Pedantic (no_macros(''IIO_SUPPORT'' \<mapsto> Num 1)))) ''HAVE_VERBOSE_MESSAGES''
   \<and> \<not> is_defined (projr (app_config Pedantic (no_macros(''IIO_SUPPORT'' \<mapsto> Num 1)))) ''HAVE_DEBUG_MESSAGES''
   \<and> \<not> is_defined (no_macros(''IIO_SUPPORT'' \<mapsto> Num 1)) ''HAVE_DEBUG_MESSAGES''"
  using C3_debug_independent_of_verbose [of Pedantic "no_macros(''IIO_SUPPORT'' \<mapsto> Num 1)"
      "projr (app_config Pedantic (no_macros(''IIO_SUPPORT'' \<mapsto> Num 1)))"]
  by (simp add: header_eval)

section \<open>ADC transfer mode\<close>

text \<open>
  \<open>ADC_DMA_EXAMPLE\<close> is defined unconditionally, so an input that asks for interrupt mode
  ends with two transfer modes on, and the pass succeeds.
\<close>

theorem C4_two_transfer_modes:
  "\<not> isl (app_config Pedantic (no_macros(''ADC_DMA_IRQ_EXAMPLE'' \<mapsto> Blank)))
   \<and> count_true (is_defined (projr (app_config Pedantic
         (no_macros(''ADC_DMA_IRQ_EXAMPLE'' \<mapsto> Blank))))) adc_transfer_modes = 2"
  by (simp add: header_eval)

text \<open>
  Claim C4, as the header has it.  The header selects DMA polling itself and checks nothing:
  after every successful first inclusion \<open>ADC_DMA_EXAMPLE\<close> is defined, and exactly one
  member of the ADC transfer mode group is on precisely when the input defines neither
  \<open>ADC_DMA_IRQ_EXAMPLE\<close> nor \<open>AXI_ADC_NOT_PRESENT\<close>.  An input that requests none of the
  three therefore ends with DMA polling selected, and one that requests another member
  ends with more than one member on.
\<close>

theorem C4_polling_always_selected:
  assumes "first_inclusion e" and "app_config c e = Inr cfg"
  shows "is_defined cfg ''ADC_DMA_EXAMPLE''
    \<and> (count_true (is_defined cfg) adc_transfer_modes = 1 \<longleftrightarrow>
         \<not> is_defined e ''ADC_DMA_IRQ_EXAMPLE'' \<and> \<not> is_defined e ''AXI_ADC_NOT_PRESENT'')"
  using app_config_first [OF assms]
  by (auto simp add: count_true_def is_defined_def adc_transfer_modes_def)

theorem C4_polling_always_selected_witness:
  "first_inclusion no_macros
   \<and> \<not> isl (app_config Pedantic no_macros)
   \<and> is_defined (projr (app_config Pedantic no_macros)) ''ADC_DMA_EXAMPLE''
   \<and> count_true (is_defined (projr (app_config Pedantic no_macros))) adc_transfer_modes = 1
   \<and> \<not> is_defined no_macros ''ADC_DMA_IRQ_EXAMPLE'' \<and> \<not> is_defined no_macros ''AXI_ADC_NOT_PRESENT''"
  using C4_polling_always_selected [of no_macros Pedantic "projr (app_config Pedantic no_macros)"]
  by (simp add: header_eval)

section \<open>Repeated inclusion\<close>

text \<open>Reading the header again on the table it produced changes nothing.\<close>

lemma app_config_reinclusion:
  assumes "app_config c e = Inr cfg"
  shows "app_config c cfg = Inr cfg"
proof (cases "first_inclusion e")
  case True
  from app_config_first [OF True assms] have "cfg ''CONFIG_H_'' = Some Blank" by simp
  then have "\<not> first_inclusion cfg" by (simp add: first_inclusion_def)
  then show ?thesis by (rule app_config_again)
next
  case False
  with assms have "cfg = e" by (simp add: app_config_again)
  with False show ?thesis by (simp add: app_config_again)
qed



section \<open>Names the header does not know\<close>

text \<open>
  A macro with a name outside the recognized set does not make the pass fail; it is still
  defined afterwards.
\<close>

theorem C6_unknown_option_accepted:
  "\<not> isl (app_config Pedantic (no_macros(''ENABLE_TURBO'' \<mapsto> Blank)))
   \<and> ''ENABLE_TURBO'' \<notin> set recognized_options
   \<and> projr (app_config Pedantic (no_macros(''ENABLE_TURBO'' \<mapsto> Blank))) ''ENABLE_TURBO'' = Some Blank"
  by (simp add: header_eval recognized_options_def)

text \<open>
  Claim C6, as the header has it.  For every option name outside the recognized set (and
  other than the guard \<open>CONFIG_H_\<close>), defining it in the input never makes the header fail:
  the outcome is the outcome without that name, with the name carried through unchanged.
\<close>

theorem C6_unknown_option_passes_through:
  assumes "n \<notin> set recognized_options" and "n \<noteq> ''CONFIG_H_''"
  shows "app_config c (e(n := v)) =
    (case app_config c e of Inl err \<Rightarrow> Inl err | Inr cfg \<Rightarrow> Inr (cfg(n := v)))"
proof -
  from assms header_names_recognized have "n \<notin> set (names app_config_h)" by blast
  then show ?thesis unfolding app_config_def by (rule exec_run_frame(2))
qed

theorem C6_unknown_option_passes_through_witness:
  "''ENABLE_TURBO'' \<notin> set recognized_options \<and> ''ENABLE_TURBO'' \<noteq> ''CONFIG_H_''
   \<and> \<not> isl (app_config Pedantic no_macros)
   \<and> app_config Pedantic (no_macros(''ENABLE_TURBO'' \<mapsto> Tokens ''fast''))
       = Inr ((projr (app_config Pedantic no_macros))(''ENABLE_TURBO'' \<mapsto> Tokens ''fast''))"
  using C6_unknown_option_passes_through
    [of "''ENABLE_TURBO''" Pedantic no_macros "Some (Tokens ''fast'')"]
  by (simp add: header_eval recognized_options_def)

section \<open>What the header sets and what it leaves alone\<close>

text \<open>
  With \<open>IIO_SUPPORT\<close> and \<open>HAVE_VERBOSE_MESSAGES\<close> both requested, the prerequisite of the
  verbose toggle is unmet and yet the toggle stays on; and \<open>ADC_DMA_EXAMPLE\<close>, a toggle
  without prerequisite that was not requested, is on in the result.
\<close>

theorem C7_unmet_prerequisite_not_cleared:
  "\<not> isl (app_config Pedantic (no_macros(''IIO_SUPPORT'' \<mapsto> Num 1, ''HAVE_VERBOSE_MESSAGES'' \<mapsto> Num 1)))
   \<and> is_defined (projr (app_config Pedantic
        (no_macros(''IIO_SUPPORT'' \<mapsto> Num 1, ''HAVE_VERBOSE_MESSAGES'' \<mapsto> Num 1)))) ''IIO_SUPPORT''
   \<and> is_defined (projr (app_config Pedantic
        (no_macros(''IIO_SUPPORT'' \<mapsto> Num 1, ''HAVE_VERBOSE_MESSAGES'' \<mapsto> Num 1)))) ''HAVE_VERBOSE_MESSAGES''
   \<and> \<not> is_defined (no_macros(''IIO_SUPPORT'' \<mapsto> Num 1, ''HAVE_VERBOSE_MESSAGES'' \<mapsto> Num 1)) ''ADC_DMA_EXAMPLE''
   \<and> is_defined (projr (app_config Pedantic
        (no_macros(''IIO_SUPPORT'' \<mapsto> Num 1, ''HAVE_VERBOSE_MESSAGES'' \<mapsto> Num 1)))) ''ADC_DMA_EXAMPLE''"
  by (simp add: header_eval)

text \<open>
  Claim C7, as the header has it.  For every input on which the pass succeeds, a message
  toggle whose prerequisite is unmet (\<open>IIO_SUPPORT\<close> defined) is neither cleared nor set:
  \<open>HAVE_VERBOSE_MESSAGES\<close> and \<open>HAVE_DEBUG_MESSAGES\<close> appear with exactly their requested
  values.  Every toggle for which the header has no \<open>#define\<close> (\<open>DAC_DMA_EXAMPLE\<close>,
  \<open>ADC_DMA_IRQ_EXAMPLE\<close>, \<open>AXI_ADC_NOT_PRESENT\<close>, \<open>TDD_SWITCH_STATE_EXAMPLE\<close>,
  \<open>IIO_SUPPORT\<close>, \<open>HAVE_DEBUG_MESSAGES\<close>) appears with exactly its requested value.  The
  remaining toggles without prerequisite are not passed through: after a first inclusion
  \<open>ADC_DMA_EXAMPLE\<close> is defined and \<open>HAVE_SPLIT_GAIN_TABLE\<close> and \<open>HAVE_TDD_SYNTH_TABLE\<close>
  are 0, whatever was requested.
\<close>

theorem C7_requested_values_kept:
  assumes "app_config c e = Inr cfg"
  shows "(is_defined e ''IIO_SUPPORT'' \<longrightarrow>
          cfg ''HAVE_VERBOSE_MESSAGES'' = e ''HAVE_VERBOSE_MESSAGES''
        \<and> cfg ''HAVE_DEBUG_MESSAGES'' = e ''HAVE_DEBUG_MESSAGES'')
    \<and> (n \<in> set untouched_toggles \<longrightarrow> cfg n = e n)
    \<and> (first_inclusion e \<longrightarrow>
          is_defined cfg ''ADC_DMA_EXAMPLE''
        \<and> cfg ''HAVE_SPLIT_GAIN_TABLE'' = Some (Num 0)
        \<and> cfg ''HAVE_TDD_SYNTH_TABLE'' = Some (Num 0))"
proof (intro conjI impI)
  assume iio: "is_defined e ''IIO_SUPPORT''"
  show "cfg ''HAVE_VERBOSE_MESSAGES'' = e ''HAVE_VERBOSE_MESSAGES''"
  proof (cases "first_inclusion e")
    case True
    from iio app_config_first [OF True assms] show ?thesis
      by (auto simp: is_defined_def)
  next
    case False
    with assms show ?thesis by (simp add: app_config_again)
  qed
next
  show "cfg ''HAVE_DEBUG_MESSAGES'' = e ''HAVE_DEBUG_MESSAGES''"
    by (rule app_config_keeps_unmentioned [OF assms]) (simp add: app_config_h_def)
next
  assume "n \<in> set untouched_toggles"
  then have "n \<notin> set (definable app_config_h)"
    by (auto simp: untouched_toggles_def app_config_h_def)
  with assms show "cfg n = e n" by (rule app_config_keeps_unmentioned)
next
  assume first: "first_inclusion e"
  from app_config_first [OF first assms] show "is_defined cfg ''ADC_DMA_EXAMPLE''"
    by (simp add: is_defined_def)
next
  assume first: "first_inclusion e"
  from app_config_first [OF first assms] show "cfg ''HAVE_SPLIT_GAIN_TABLE'' = Some (Num 0)"
    by simp
next
  assume first: "first_inclusion e"
  from app_config_first [OF first assms] show "cfg ''HAVE_TDD_SYNTH_TABLE'' = Some (Num 0)"
    by simp
qed

theorem C7_requested_values_kept_witness:
  "\<not> isl (app_config Pedantic (no_macros(''IIO_SUPPORT'' \<mapsto> Blank, ''HAVE_VERBOSE_MESSAGES'' \<mapsto> Blank)))
   \<and> is_defined (no_macros(''IIO_SUPPORT'' \<mapsto> Blank, ''HAVE_VERBOSE_MESSAGES'' \<mapsto> Blank)) ''IIO_SUPPORT''
   \<and> ''IIO_SUPPORT'' \<in> set untouched_toggles
   \<and> first_inclusion (no_macros(''IIO_SUPPORT'' \<mapsto> Blank, ''HAVE_VERBOSE_MESSAGES'' \<mapsto> Blank))
   \<and> projr (app_config Pedantic (no_macros(''IIO_SUPPORT'' \<mapsto> Blank, ''HAVE_VERBOSE_MESSAGES'' \<mapsto> Blank)))
         ''IIO_SUPPORT'' = Some Blank
   \<and> projr (app_config Pedantic (no_macros(''IIO_SUPPORT'' \<mapsto> Blank, ''HAVE_VERBOSE_MESSAGES'' \<mapsto> Blank)))
         ''HAVE_VERBOSE_MESSAGES'' = Some Blank
   \<and> projr (app_config Pedantic (no_macros(''IIO_SUPPORT'' \<mapsto> Blank, ''HAVE_VERBOSE_MESSAGES'' \<mapsto> Blank)))
         ''HAVE_DEBUG_MESSAGES'' = None
   \<and> is_defined (projr (app_config Pedantic
         (no_macros(''IIO_SUPPORT'' \<mapsto> Blank, ''HAVE_VERBOSE_MESSAGES'' \<mapsto> Blank)))) ''ADC_DMA_EXAMPLE''
   \<and> projr (app_config Pedantic (no_macros(''IIO_SUPPORT'' \<mapsto> Blank, ''HAVE_VERBOSE_MESSAGES'' \<mapsto> Blank)))
         ''HAVE_SPLIT_GAIN_TABLE'' = Some (Num 0)
   \<and> projr (app_config Pedantic (no_macros(''IIO_SUPPORT'' \<mapsto> Blank, ''HAVE_VERBOSE_MESSAGES'' \<mapsto> Blank)))
         ''HAVE_TDD_SYNTH_TABLE'' = Some (Num 0)"
  using C7_requested_values_kept [of Pedantic
      "no_macros(''IIO_SUPPORT'' \<mapsto> Blank, ''HAVE_VERBOSE_MESSAGES'' \<mapsto> Blank)"
      "projr (app_config Pedantic (no_macros(''IIO_SUPPORT'' \<mapsto> Blank, ''HAVE_VERBOSE_MESSAGES'' \<mapsto> Blank)))"
      "''IIO_SUPPORT''"]
  by (simp add: header_eval untouched_toggles_def)

section \<open>The shipped selection\<close>

text \<open>
  Claim C8.  The option set AD9361, Xilinx, no IIO support, verbose messages on, debug
  messages off, ADC DMA polling resolves successfully, in either conformance mode, to a
  configuration in which \<open>AD9361_DEVICE\<close> is true, \<open>XILINX_PLATFORM\<close> and
  \<open>HAVE_VERBOSE_MESSAGES\<close> are defined and \<open>HAVE_DEBUG_MESSAGES\<close> is not.  This holds
  both when the selections are already defined on entry and when nothing is, since they
  are the selections the header makes itself.
\<close>

theorem C8_example_configuration:
  "\<not> isl (app_config c example_options)
   \<and> is_nonzero (projr (app_config c example_options)) ''AD9361_DEVICE''
   \<and> is_defined (projr (app_config c example_options)) ''XILINX_PLATFORM''
   \<and> is_defined (projr (app_config c example_options)) ''HAVE_VERBOSE_MESSAGES''
   \<and> \<not> is_defined (projr (app_config c example_options)) ''HAVE_DEBUG_MESSAGES''
   \<and> \<not> isl (app_config c no_macros)
   \<and> is_nonzero (projr (app_config c no_macros)) ''AD9361_DEVICE''
   \<and> is_defined (projr (app_config c no_macros)) ''XILINX_PLATFORM''
   \<and> is_defined (projr (app_config c no_macros)) ''HAVE_VERBOSE_MESSAGES''
   \<and> \<not> is_defined (projr (app_config c no_macros)) ''HAVE_DEBUG_MESSAGES''"
  by (simp add: header_eval example_options_def)

section \<open>Windows and Xilinx\<close>

text \<open>
  When both \<open>WINDOWS_PLATFORM\<close> and \<open>XILINX_PLATFORM\<close> are defined on entry, both are
  defined afterwards: the header only refrains from defining \<open>XILINX_PLATFORM\<close> itself.
\<close>

theorem C9_windows_and_xilinx:
  "\<not> isl (app_config Pedantic (no_macros(''WINDOWS_PLATFORM'' \<mapsto> Blank, ''XILINX_PLATFORM'' \<mapsto> Blank)))
   \<and> is_defined (projr (app_config Pedantic
        (no_macros(''WINDOWS_PLATFORM'' \<mapsto> Blank, ''XILINX_PLATFORM'' \<mapsto> Blank)))) ''WINDOWS_PLATFORM''
   \<and> is_defined (projr (app_config Pedantic
        (no_macros(''WINDOWS_PLATFORM'' \<mapsto> Blank, ''XILINX_PLATFORM'' \<mapsto> Blank)))) ''XILINX_PLATFORM''"
  by (simp add: header_eval)

text \<open>
  Claim C9, as the header has it.  On a first inclusion the header leaves
  \<open>WINDOWS_PLATFORM\<close> as it finds it; if it is defined, \<open>XILINX_PLATFORM\<close> is left as
  found too, and if it is not, \<open>XILINX_PLATFORM\<close> is defined.  So at least one of the two
  is defined afterwards, and both are defined afterwards only if both were defined before.
\<close>

theorem C9_windows_precedence:
  assumes "first_inclusion e" and "app_config c e = Inr cfg"
  shows "cfg ''WINDOWS_PLATFORM'' = e ''WINDOWS_PLATFORM''
    \<and> cfg ''XILINX_PLATFORM'' =
        (if is_defined e ''WINDOWS_PLATFORM'' then e ''XILINX_PLATFORM'' else Some Blank)
    \<and> (is_defined cfg ''WINDOWS_PLATFORM'' \<or> is_defined cfg ''XILINX_PLATFORM'')
    \<and> ((is_defined cfg ''WINDOWS_PLATFORM'' \<and> is_defined cfg ''XILINX_PLATFORM'') \<longleftrightarrow>
        (is_defined e ''WINDOWS_PLATFORM'' \<and> is_defined e ''XILINX_PLATFORM''))"
  using app_config_first [OF assms]
  by (auto simp: is_defined_def)

theorem C9_windows_precedence_witness:
  "first_inclusion (no_macros(''WINDOWS_PLATFORM'' \<mapsto> Num 1))
   \<and> \<not> isl (app_config Pedantic (no_macros(''WINDOWS_PLATFORM'' \<mapsto> Num 1)))
   \<and> is_defined (projr (app_config Pedantic (no_macros(''WINDOWS_PLATFORM'' \<mapsto> Num 1)))) ''WINDOWS_PLATFORM''
   \<and> \<not> is_defined (projr (app_config Pedantic (no_macros(''WINDOWS_PLATFORM'' \<mapsto> Num 1)))) ''XILINX_PLATFORM''"
  using C9_windows_precedence [of "no_macros(''WINDOWS_PLATFORM'' \<mapsto> Num 1)" Pedantic
      "projr (app_config Pedantic (no_macros(''WINDOWS_PLATFORM'' \<mapsto> Num 1)))"]
  by (simp add: header_eval)

section \<open>The gain and synthesizer tables\<close>

text \<open>
  When the guard \<open>CONFIG_H_\<close> is already defined the header is skipped, and a
  \<open>HAVE_SPLIT_GAIN_TABLE\<close> that was defined as 1 stays 1.
\<close>

theorem C10_skipped_header_keeps_request:
  "\<not> isl (app_config Pedantic (no_macros(''CONFIG_H_'' \<mapsto> Blank, ''HAVE_SPLIT_GAIN_TABLE'' \<mapsto> Num 1)))
   \<and> projr (app_config Pedantic
        (no_macros(''CONFIG_H_'' \<mapsto> Blank, ''HAVE_SPLIT_GAIN_TABLE'' \<mapsto> Num 1))) ''HAVE_SPLIT_GAIN_TABLE''
       = Some (Num 1)
   \<and> is_nonzero (projr (app_config Pedantic
        (no_macros(''CONFIG_H_'' \<mapsto> Blank, ''HAVE_SPLIT_GAIN_TABLE'' \<mapsto> Num 1)))) ''HAVE_SPLIT_GAIN_TABLE''"
  by (simp add: header_eval)

text \<open>
  Claim C10, as the header has it.  For every input in which the guard \<open>CONFIG_H_\<close> is not
  yet defined, a successful pass leaves \<open>HAVE_SPLIT_GAIN_TABLE\<close> and
  \<open>HAVE_TDD_SYNTH_TABLE\<close> defined as 0, whatever the input said about them.
\<close>

theorem C10_tables_hard_wired:
  assumes "first_inclusion e" and "app_config c e = Inr cfg"
  shows "cfg ''HAVE_SPLIT_GAIN_TABLE'' = Some (Num 0) \<and> cfg ''HAVE_TDD_SYNTH_TABLE'' = Some (Num 0)
    \<and> \<not> is_nonzero cfg ''HAVE_SPLIT_GAIN_TABLE'' \<and> \<not> is_nonzero cfg ''HAVE_TDD_SYNTH_TABLE''"
  using app_config_first [OF assms] by (simp add: is_nonzero_def)

theorem C10_tables_hard_wired_witness:
  "first_inclusion (no_macros(''HAVE_SPLIT_GAIN_TABLE'' \<mapsto> Num 1))
   \<and> \<not> isl (app_config Permissive (no_macros(''HAVE_SPLIT_GAIN_TABLE'' \<mapsto> Num 1)))
   \<and> projr (app_config Permissive (no_macros(''HAVE_SPLIT_GAIN_TABLE'' \<mapsto> Num 1)))
        ''HAVE_SPLIT_GAIN_TABLE'' = Some (Num 0)
   \<and> projr (app_config Permissive (no_macros(''HAVE_SPLIT_GAIN_TABLE'' \<mapsto> Num 1)))
        ''HAVE_TDD_SYNTH_TABLE'' = Some (Num 0)"
  using C10_tables_hard_wired [of "no_macros(''HAVE_SPLIT_GAIN_TABLE'' \<mapsto> Num 1)" Permissive
      "projr (app_config Permissive (no_macros(''HAVE_SPLIT_GAIN_TABLE'' \<mapsto> Num 1)))"]
  by (simp add: header_eval)

end
